theory Spec2Isabelle
  imports Main "HOL-Library.Sublist" "HOL-Library.Word"
begin

unbundle bit_operations_syntax

section \<open>k3sup install: a model of \<open>pkg/cmd/install.go\<close>\<close>

text \<open>
  The file holds one cobra command (\<open>MakeInstall\<close>) and its helpers \<open>writeConfig\<close>,
  \<open>mergeConfigs\<close>, \<open>expandPath\<close>, \<open>sshAgent\<close> and \<open>loadPublickey\<close>. Every helper talks
  to the operating system or to a library, so the model threads a \<open>world\<close> (the file
  system and the ordered log of observable effects) through each function, and reads
  the behaviour of everything outside the file (the OS, the Go libraries, the agent,
  the remote host, kubectl) from an \<open>env\<close> record. Theorems quantify over every
  \<open>env\<close>, that is over every behaviour of those collaborators.
\<close>

subsection \<open>Data\<close>

type_synonym bytes = string
type_synonym path = string

text \<open>A Go \<open>error\<close> value, identified by what \<open>err.Error()\<close> prints.\<close>

datatype error = Err (message: string)

text \<open>\<open>ssh.Signer\<close>: a signer is identified by the wire form of its public key.\<close>

datatype signer = KeySigner bytes | AgentKeySigner bytes

text \<open>\<open>agent.Key\<close> as returned by \<open>List\<close>.\<close>

record agentKey =
  Format :: string
  Blob :: bytes
  Comment :: string

text \<open>
  A connection to the agent, as \<open>net.Dial\<close> returns it and \<open>agent.NewClient\<close> wraps it:
  what matters of it is what the agent answers to \<open>List\<close>.
\<close>

record agentConn =
  agent_List :: "error + agentKey list"

text \<open>\<open>ssh.PublicKey\<close>: \<open>Marshal\<close> gives its wire form.\<close>

datatype publicKey = PublicKey (Marshal: bytes)

text \<open>
  \<open>ssh.AuthMethod\<close>: \<open>ssh.PublicKeys(signer)\<close> holds its signers;
  \<open>ssh.PublicKeysCallback(sshAgent.Signers)\<close> holds the method value bound to the
  agent client, which is asked for the signers when the handshake runs.
\<close>

datatype authMethod = PublicKeys "signer list" | PublicKeysCallback agentConn

text \<open>The two release functions the file returns: the no-op closure and \<open>sshAgentConn.Close\<close>.\<close>

datatype closeFunc = noopCloseFunc | sshAgentConn_Close

record osFile =
  mode :: "32 word"
  content :: bytes

text \<open>\<open>kssh.commandRes\<close> as the file uses it.\<close>

record commandRes =
  StdOut :: bytes
  StdErr :: bytes

record clientConfig =
  User :: string
  Auth :: "authMethod option list"
  InsecureIgnoreHostKey :: bool

text \<open>Everything the process does that can be observed from outside, in order.\<close>

datatype event =
    Stdout string
  | AgentDial string
  | AgentList
  | AgentClose
  | TermReadPassword
  | SSHDial string
  | SSHExecute string
  | SSHClose
  | FileClose path
  | RunKubectl "string list"

record world =
  fs :: "path \<rightharpoonup> osFile"
  trace :: "event list"

text \<open>How a \<open>WriteFile\<close> can fail: at open (nothing written), or after \<open>n\<close> bytes.\<close>

datatype writeFault = OpenFault error | ShortWrite error nat

record env =
  \<comment> \<open>operating system\<close>
  Getenv :: "string \<Rightarrow> string"
  Environ :: "string list"
  TempDir :: path
  temp_rand :: string
  temp_fault :: "error option"
  read_fault :: "path \<Rightarrow> error option"
  write_fault :: "path \<Rightarrow> writeFault option"
  remove_fault :: "path \<Rightarrow> error option"
  umask :: "32 word"
  \<comment> \<open>path and formatting libraries\<close>
  filepath_Abs :: "path \<Rightarrow> path"
  homedir_Expand :: "path \<Rightarrow> path"
  strings_TrimSpace :: "string \<Rightarrow> string"
  strconv_Quote :: "string \<Rightarrow> string"
  \<comment> \<open>golang.org/x/crypto/ssh, ssh/agent, ssh/terminal\<close>
  ParsePrivateKey :: "bytes \<Rightarrow> error + signer"
  ParsePrivateKeyWithPassphrase :: "bytes \<Rightarrow> bytes \<Rightarrow> error + signer"
  ParseAuthorizedKey :: "bytes \<Rightarrow> error + publicKey"
  net_Dial :: "string \<Rightarrow> error + agentConn"
  ReadPassword :: "bytes \<times> error option"
  \<comment> \<open>the remote host and the kubectl subprocess\<close>
  ssh_connect :: "string \<Rightarrow> clientConfig \<Rightarrow> error option"
  ssh_run :: "string \<Rightarrow> error + commandRes"
  kubectl :: "(path \<rightharpoonup> osFile) \<Rightarrow> string list \<Rightarrow> error + bytes"

definition emit :: "event \<Rightarrow> world \<Rightarrow> world" where
  "emit e w = w\<lparr>trace := trace w @ [e]\<rparr>"

subsection \<open>Library operations the file calls\<close>

text \<open>
  \<open>ioutil.ReadFile\<close>: the whole content, or an error (the fault the environment
  raises for the path, or the file not being there).
\<close>

definition ReadFile :: "env \<Rightarrow> world \<Rightarrow> path \<Rightarrow> error + bytes" where
  "ReadFile E w p =
     (case read_fault E p of
        Some e \<Rightarrow> Inl e
      | None \<Rightarrow>
          (case fs w p of
             None \<Rightarrow> Inl (Err (''open '' @ p @ '': no such file or directory''))
           | Some f \<Rightarrow> Inr (content f)))"

text \<open>
  \<open>ioutil.WriteFile(name, data, perm)\<close> opens with \<open>O_WRONLY|O_CREATE|O_TRUNC\<close>: a file
  that is missing is created with \<open>perm\<close> less the umask; a file that is there is
  truncated and keeps its permission bits. Then it writes \<open>data\<close>.
\<close>

definition opened :: "env \<Rightarrow> world \<Rightarrow> path \<Rightarrow> 32 word \<Rightarrow> bytes \<Rightarrow> osFile" where
  "opened E w name perm d =
     \<lparr>mode = (case fs w name of None \<Rightarrow> perm AND NOT (umask E) | Some f \<Rightarrow> mode f),
      content = d\<rparr>"

definition WriteFile :: "env \<Rightarrow> path \<Rightarrow> bytes \<Rightarrow> 32 word \<Rightarrow> world \<Rightarrow> error option \<times> world" where
  "WriteFile E name data perm w =
     (case write_fault E name of
        Some (OpenFault e) \<Rightarrow> (Some e, w)
      | Some (ShortWrite e n) \<Rightarrow>
          (Some e, w\<lparr>fs := (fs w)(name \<mapsto> opened E w name perm (take n data))\<rparr>)
      | None \<Rightarrow> (None, w\<lparr>fs := (fs w)(name \<mapsto> opened E w name perm data)\<rparr>))"

text \<open>
  \<open>ioutil.TempFile(dir, "k3s-temp-*")\<close>: a new file \<open>dir/k3s-temp-<random>\<close>, opened with
  \<open>O_EXCL\<close> and mode 0600, so a name that is taken is never handed out.
\<close>

definition TempFile :: "env \<Rightarrow> path \<Rightarrow> string \<Rightarrow> world \<Rightarrow> (error + path) \<times> world" where
  "TempFile E dir pfx w =
     (case temp_fault E of
        Some e \<Rightarrow> (Inl e, w)
      | None \<Rightarrow>
          (let name = dir @ ''/'' @ pfx @ temp_rand E in
           if fs w name \<noteq> None then (Inl (Err (''open '' @ name @ '': file exists'')), w)
           else (Inr name,
                 w\<lparr>fs := (fs w)(name \<mapsto> \<lparr>mode = 0x180 AND NOT (umask E), content = []\<rparr>)\<rparr>)))"

text \<open>\<open>os.Remove\<close>.\<close>

definition Remove :: "env \<Rightarrow> path \<Rightarrow> world \<Rightarrow> error option \<times> world" where
  "Remove E name w =
     (case remove_fault E name of
        Some e \<Rightarrow> (Some e, w)
      | None \<Rightarrow>
          (case fs w name of
             None \<Rightarrow> (Some (Err (''remove '' @ name @ '': no such file or directory'')), w)
           | Some f \<Rightarrow> (None, w\<lparr>fs := (fs w)(name := None)\<rparr>)))"

text \<open>\<open>errors.Wrapf(err, msg)\<close> prints as \<open>msg: err\<close>.\<close>

definition Wrapf :: "error \<Rightarrow> string \<Rightarrow> error" where
  "Wrapf e msg = Err (msg @ '': '' @ message e)"

text \<open>\<open>(*agent.client).Signers\<close>: one signer for every key the agent lists.\<close>

definition agent_Signers :: "agentConn \<Rightarrow> error + signer list" where
  "agent_Signers c =
     (case agent_List c of
        Inl e \<Rightarrow> Inl e
      | Inr keys \<Rightarrow> Inr (map (\<lambda>k. AgentKeySigner (Blob k)) keys))"

text \<open>The signers an authentication method offers to the server during the handshake.\<close>

fun offered_signers :: "authMethod \<Rightarrow> error + signer list" where
  "offered_signers (PublicKeys ss) = Inr ss"
| "offered_signers (PublicKeysCallback c) = agent_Signers c"

text \<open>Calling a release function.\<close>

fun run_close :: "closeFunc \<Rightarrow> world \<Rightarrow> world" where
  "run_close noopCloseFunc w = w"
| "run_close sshAgentConn_Close w = emit AgentClose w"

subsection \<open>\<open>sshAgent\<close> and \<open>loadPublickey\<close>\<close>

text \<open>The loop of \<open>sshAgent\<close> over the agent's keys: is some \<open>key.Blob\<close> equal to \<open>parsedkey\<close>?\<close>

fun blob_match :: "agentKey list \<Rightarrow> bytes \<Rightarrow> bool" where
  "blob_match [] parsedkey = False"
| "blob_match (key # keys) parsedkey =
     (if Blob key = parsedkey then True else blob_match keys parsedkey)"

definition sshAgent :: "env \<Rightarrow> path \<Rightarrow> world \<Rightarrow> (authMethod option \<times> closeFunc) \<times> world" where
  "sshAgent E publicKeyPath w =
     (let sock = Getenv E ''SSH_AUTH_SOCK''; w1 = emit (AgentDial sock) w in
      case net_Dial E sock of
        Inl err \<Rightarrow> ((None, noopCloseFunc), w1)
      | Inr sshAgentConn \<Rightarrow>
          (let w2 = emit AgentList w1;
               keys = (case agent_List sshAgentConn of Inl err \<Rightarrow> [] | Inr ks \<Rightarrow> ks)
           in if length keys = 0 then ((None, sshAgentConn_Close), w2)
              else
                (case ReadFile E w2 publicKeyPath of
                   Inl err \<Rightarrow> ((None, sshAgentConn_Close), w2)
                 | Inr pubkey \<Rightarrow>
                     (case ParseAuthorizedKey E pubkey of
                        Inl err \<Rightarrow> ((None, sshAgentConn_Close), w2)
                      | Inr authkey \<Rightarrow>
                          (let parsedkey = Marshal authkey in
                           if blob_match keys parsedkey
                           then ((Some (PublicKeysCallback sshAgentConn), sshAgentConn_Close), w2)
                           else ((None, noopCloseFunc), w2))))))"

definition encrypted_key_message :: string where
  "encrypted_key_message = ''ssh: cannot decode encrypted private keys''"

definition passphrase_prompt :: "path \<Rightarrow> string" where
  "passphrase_prompt p = ''Enter passphrase for '' @ [CHR 0x27] @ p @ [CHR 0x27] @ '': ''"

definition loadPublickey ::
  "env \<Rightarrow> path \<Rightarrow> world \<Rightarrow> (authMethod option \<times> closeFunc \<times> error option) \<times> world" where
  "loadPublickey E p w =
     (case ReadFile E w p of
        Inl err \<Rightarrow> ((None, noopCloseFunc, Some err), w)
      | Inr key \<Rightarrow>
          (case ParsePrivateKey E key of
             Inr signer \<Rightarrow> ((Some (PublicKeys [signer]), noopCloseFunc, None), w)
           | Inl err \<Rightarrow>
               if message err \<noteq> encrypted_key_message
               then ((None, noopCloseFunc, Some err), w)
               else
                 (case sshAgent E (p @ ''.pub'') w of
                    ((Some a, close), w1) \<Rightarrow> ((Some a, close, None), w1)
                  | ((None, close), w1) \<Rightarrow>
                      (let w2 = emit (Stdout (passphrase_prompt p)) w1;
                           w3 = emit TermReadPassword w2;
                           bytePassword = fst (ReadPassword E);
                           w4 = emit (Stdout [CHR 0x0A]) w3
                       in case ParsePrivateKeyWithPassphrase E key bytePassword of
                            Inl err \<Rightarrow> ((None, noopCloseFunc, Some err), run_close close w4)
                          | Inr signer \<Rightarrow>
                              ((Some (PublicKeys [signer]), noopCloseFunc, None),
                               run_close close w4)))))"

subsection \<open>The loopback rewrite\<close>

text \<open>
  \<open>strings.NewReplacer(old1, new1, old2, new2, ...).Replace(s)\<close>: the library scans
  \<open>s\<close> from left to right; at each position the first pair, in argument order, whose
  old string starts there is replaced and the scan resumes after the match, so that
  matches never overlap and replaced text is not scanned again; a byte where no old
  string starts is copied. (The old strings of this file are not empty.)
\<close>

fun lookup_pair :: "(string \<times> string) list \<Rightarrow> string \<Rightarrow> (string \<times> string) option" where
  "lookup_pair [] s = None"
| "lookup_pair ((old, new) # ps) s =
     (if old \<noteq> [] \<and> prefix old s then Some (old, new) else lookup_pair ps s)"

function Replacer_Replace :: "(string \<times> string) list \<Rightarrow> string \<Rightarrow> string" where
  "Replacer_Replace ps [] = []"
| "Replacer_Replace ps (c # cs) =
     (case lookup_pair ps (c # cs) of
        None \<Rightarrow> c # Replacer_Replace ps cs
      | Some (old, new) \<Rightarrow> new @ Replacer_Replace ps (drop (length old) (c # cs)))"
  by pat_completeness auto
termination
proof (relation "measure (\<lambda>(ps, s). length s)")
  have nonempty: "old \<noteq> []" if "lookup_pair ps s = Some (old, new)" for ps s old new
    using that by (induction ps) (auto split: if_splits)
  fix ps :: "(string \<times> string) list" and c :: char and cs x2 old new
  assume "lookup_pair ps (c # cs) = Some x2" and "(old, new) = x2"
  then have "old \<noteq> []" using nonempty by metis
  then show "((ps, drop (length old) (c # cs)), ps, c # cs) \<in> measure (\<lambda>(ps, s). length s)"
    by (cases old) auto
qed auto

text \<open>
  Line 117:
  \<open>strings.NewReplacer("localhost", ip.String(), "127.0.0.1", ip.String()).Replace(string(res.StdOut))\<close>.
\<close>

definition loopback_name :: string where
  "loopback_name = ''localhost''"

definition loopback_addr :: string where
  "loopback_addr = ''127.0.0.1''"

definition rewriteLoopback :: "string \<Rightarrow> bytes \<Rightarrow> bytes" where
  "rewriteLoopback ip doc =
     Replacer_Replace [(loopback_name, ip), (loopback_addr, ip)] doc"

subsection \<open>\<open>writeConfig\<close>, \<open>mergeConfigs\<close>, \<open>expandPath\<close>\<close>

definition nl :: string where
  "nl = [CHR 0x0A]"

text \<open>The permission argument \<open>0600\<close> (octal) is \<open>0x180\<close>.\<close>

definition writeConfig :: "env \<Rightarrow> path \<Rightarrow> bytes \<Rightarrow> bool \<Rightarrow> world \<Rightarrow> error option \<times> world" where
  "writeConfig E p data suppressMessage w =
     (let absPath = filepath_Abs E p;
          w1 = (if \<not> suppressMessage
                then emit (Stdout (''Saving file to: '' @ absPath @ nl)) w else w)
      in case WriteFile E absPath data 0x180 w1 of
           (Some writeErr, w2) \<Rightarrow> (Some writeErr, w2)
         | (None, w2) \<Rightarrow> (None, w2))"

text \<open>
  \<open>defer file.Close()\<close> runs on every return after the temporary file was created: it
  is the \<open>FileClose\<close> event at the end of each such branch. \<open>cmd.Output()\<close> runs
  kubectl on the file system as it is then, with the environment extended by
  \<open>KUBECONFIG=<local>:<temporary>\<close>.
\<close>

definition mergeConfigs :: "env \<Rightarrow> path \<Rightarrow> bytes \<Rightarrow> world \<Rightarrow> (error + bytes) \<times> world" where
  "mergeConfigs E localKubeconfigPath k3sconfig w =
     (case TempFile E (TempDir E) ''k3s-temp-'' w of
        (Inl err, w1) \<Rightarrow>
          (Inl (Err (''Could not generate a temporary file to store the kuebeconfig: ''
                     @ message err)), w1)
      | (Inr name, w1) \<Rightarrow>
          (case writeConfig E name k3sconfig True w1 of
             (Some writeErr, w2) \<Rightarrow> (Inl writeErr, emit (FileClose name) w2)
           | (None, w2) \<Rightarrow>
               (let w3 = emit (Stdout (''Merging with existing kubeconfig at ''
                                       @ localKubeconfigPath @ nl)) w2;
                    appendKubeConfigENV = ''KUBECONFIG='' @ localKubeconfigPath @ '':'' @ name;
                    cmd_Env = Environ E @ [appendKubeConfigENV];
                    w4 = emit (RunKubectl cmd_Env) w3
                in case kubectl E (fs w4) cmd_Env of
                     Inl err \<Rightarrow>
                       (Inl (Err (''Could not merge kubeconfigs: '' @ message err)),
                        emit (FileClose name) w4)
                   | Inr data \<Rightarrow>
                       (case Remove E name w4 of
                          (Some err, w5) \<Rightarrow>
                            (Inl (Wrapf err (''Could not remove temporary kubeconfig file: '' @ name)),
                             emit (FileClose name) w5)
                        | (None, w5) \<Rightarrow> (Inr data, emit (FileClose name) w5)))))"

text \<open>\<open>homedir.Expand\<close> returns the empty string with its error, which is dropped.\<close>

definition expandPath :: "env \<Rightarrow> path \<Rightarrow> path" where
  "expandPath E p = homedir_Expand E p"

subsection \<open>The command: \<open>RunE\<close> of \<open>MakeInstall\<close>\<close>

text \<open>The flags as \<open>RunE\<close> reads them; \<open>flag_ip\<close> is \<open>ip.String()\<close>.\<close>

record flags =
  flag_local_path :: path
  flag_skip_install :: bool
  flag_ssh_port :: int
  flag_ip :: string
  flag_user :: string
  flag_ssh_key :: path
  flag_merge :: bool
  flag_k3s_extra_args :: string
  flag_k3s_version :: string

text \<open>The verb \<open>%d\<close> of \<open>fmt\<close>.\<close>

function show_nat :: "nat \<Rightarrow> string" where
  "show_nat n =
     (if n < 10 then [''0123456789'' ! n]
      else show_nat (n div 10) @ [''0123456789'' ! (n mod 10)])"
  by pat_completeness auto
termination
  by (relation "measure id") auto

definition show_int :: "int \<Rightarrow> string" where
  "show_int i = (if i < 0 then ''-'' @ show_nat (nat (- i)) else show_nat (nat i))"

text \<open>
  Modelled from the spec: the package \<open>pkg/ssh\<close> (\<open>kssh.NewSSHOperator\<close>,
  \<open>Execute\<close>, \<open>Close\<close>) is not among the sources. Section 4.2: \<open>open\<close> performs a
  network dial plus handshake and authentication with the resolved method; \<open>execute\<close>
  writes the command and blocks until the remote process ends, returning its standard
  output and standard error; \<open>close\<close> releases the connection.
\<close>

definition NewSSHOperator :: "env \<Rightarrow> string \<Rightarrow> clientConfig \<Rightarrow> world \<Rightarrow> error option \<times> world" where
  "NewSSHOperator E address config w = (ssh_connect E address config, emit (SSHDial address) w)"

definition Execute :: "env \<Rightarrow> string \<Rightarrow> world \<Rightarrow> (error + commandRes) \<times> world" where
  "Execute E command w = (ssh_run E command, emit (SSHExecute command) w)"

definition installK3scommand :: "env \<Rightarrow> flags \<Rightarrow> string" where
  "installK3scommand E F =
     ''curl -sLS https://get.k3s.io | INSTALL_K3S_EXEC='' @ [CHR 0x27] @ ''server --tls-san ''
     @ flag_ip F @ '' '' @ strings_TrimSpace E (flag_k3s_extra_args F) @ [CHR 0x27]
     @ '' INSTALL_K3S_VERSION='' @ [CHR 0x27] @ flag_k3s_version F @ [CHR 0x27] @ '' sh -'' @ nl"

definition getConfigcommand :: string where
  "getConfigcommand = ''sudo cat /etc/rancher/k3s/k3s.yaml'' @ nl"

definition show_result :: "commandRes \<Rightarrow> string" where
  "show_result res = ''Result: '' @ StdOut res @ '' '' @ StdErr res @ nl"

text \<open>Lines 91 to 102: the installer, unless \<open>--skip-install\<close>.\<close>

definition runE_install :: "env \<Rightarrow> flags \<Rightarrow> world \<Rightarrow> error option \<times> world" where
  "runE_install E F w =
     (if \<not> flag_skip_install F then
        (let w1 = emit (Stdout (''ssh: '' @ installK3scommand E F @ nl)) w in
         case Execute E (installK3scommand E F) w1 of
           (Inl err, w2) \<Rightarrow>
             (Some (Err (''Error received processing command: '' @ message err)), w2)
         | (Inr res, w2) \<Rightarrow> (None, emit (Stdout (show_result res)) w2))
      else (None, w))"

text \<open>Lines 104 to 132: fetch the kubeconfig, rewrite it, merge on \<open>--merge\<close>, save.\<close>

definition runE_config :: "env \<Rightarrow> flags \<Rightarrow> world \<Rightarrow> error option \<times> world" where
  "runE_config E F w =
     (let w1 = emit (Stdout (''ssh: '' @ getConfigcommand @ nl)) w in
      case Execute E getConfigcommand w1 of
        (Inl err, w2) \<Rightarrow>
          (Some (Err (''Error received processing command: '' @ message err)), w2)
      | (Inr res, w2) \<Rightarrow>
          (let w3 = emit (Stdout (show_result res)) w2;
               absPath = filepath_Abs E (flag_local_path F);
               kubeconfig = rewriteLoopback (flag_ip F) (StdOut res)
           in if flag_merge F then
                (case mergeConfigs E absPath kubeconfig w3 of
                   (Inl err, w4) \<Rightarrow> (Some err, w4)
                 | (Inr merged, w4) \<Rightarrow> writeConfig E absPath merged False w4)
              else writeConfig E absPath kubeconfig False w3))"

text \<open>
  Lines 48 to 89, and the two deferred calls: \<open>operator.Close()\<close> runs first, then
  \<open>closeSSHAgent()\<close>, on every return after each was registered.
\<close>

definition runE :: "env \<Rightarrow> flags \<Rightarrow> world \<Rightarrow> error option \<times> world" where
  "runE E F w =
     (let w1 = emit (Stdout (''Public IP: '' @ flag_ip F @ nl)) w;
          sshKeyPath = expandPath E (flag_ssh_key F);
          w2 = emit (Stdout (''ssh -i '' @ sshKeyPath @ '' '' @ flag_user F @ ''@''
                             @ flag_ip F @ nl)) w1
      in case loadPublickey E sshKeyPath w2 of
           ((authMethod, closeSSHAgent, Some err), w3) \<Rightarrow>
             (Some (Wrapf err (''unable to load the ssh key with path ''
                               @ strconv_Quote E sshKeyPath)), w3)
         | ((authMethod, closeSSHAgent, None), w3) \<Rightarrow>
             (let config = \<lparr>User = flag_user F, Auth = [authMethod],
                            InsecureIgnoreHostKey = True\<rparr>;
                  address = flag_ip F @ '':'' @ show_int (flag_ssh_port F)
              in case NewSSHOperator E address config w3 of
                   (Some err, w4) \<Rightarrow>
                     (Some (Wrapf err (''unable to connect to '' @ address @ '' over ssh'')),
                      run_close closeSSHAgent w4)
                 | (None, w4) \<Rightarrow>
                     (case (case runE_install E F w4 of
                              (Some e, w5) \<Rightarrow> (Some e, w5)
                            | (None, w5) \<Rightarrow> runE_config E F w5) of
                        (r, w6) \<Rightarrow> (r, run_close closeSSHAgent (emit SSHClose w6)))))"

section \<open>Notions the properties are stated with\<close>

subsection \<open>Observations on the effect log and on permissions\<close>

text \<open>
  A dial is a connection attempt to the agent socket or to the remote host; a prompt is
  the read of the passphrase; \<open>executed\<close> lists the commands sent over the remote
  session, in order. A mode is owner-only when none of the group and other bits
  (octal \<open>077\<close>) is set.
\<close>

fun is_dial :: "event \<Rightarrow> bool" where
  "is_dial (AgentDial s) = True"
| "is_dial (SSHDial a) = True"
| "is_dial e = False"

fun is_prompt :: "event \<Rightarrow> bool" where
  "is_prompt TermReadPassword = True"
| "is_prompt e = False"



definition owner_only :: "32 word \<Rightarrow> bool" where
  "owner_only m = (m AND 0x3F = 0)"

subsection \<open>What the replacer does to a document, piece by piece\<close>

text \<open>
  The scan of \<open>Replacer_Replace\<close> cuts the document into segments: a byte that is
  copied, or a match of an old string that is replaced by its new string. \<open>segments\<close>
  is that cut for the two pairs of the loopback rewrite; \<open>occurrences\<close> counts the
  positions of a document where a literal starts, overlapping or not.
\<close>

datatype segment = Keep char | Subst string string

fun seg_src :: "segment \<Rightarrow> string" where
  "seg_src (Keep c) = [c]"
| "seg_src (Subst old new) = old"

fun seg_dst :: "segment \<Rightarrow> string" where
  "seg_dst (Keep c) = [c]"
| "seg_dst (Subst old new) = new"

fun is_subst :: "segment \<Rightarrow> bool" where
  "is_subst (Subst old new) = True"
| "is_subst (Keep c) = False"

function scan :: "(string \<times> string) list \<Rightarrow> string \<Rightarrow> segment list" where
  "scan ps [] = []"
| "scan ps (c # cs) =
     (case lookup_pair ps (c # cs) of
        None \<Rightarrow> Keep c # scan ps cs
      | Some (old, new) \<Rightarrow> Subst old new # scan ps (drop (length old) (c # cs)))"
  by pat_completeness auto
termination
proof (relation "measure (\<lambda>(ps, s). length s)")
  have nonempty: "old \<noteq> []" if "lookup_pair ps s = Some (old, new)" for ps s old new
    using that by (induction ps) (auto split: if_splits)
  fix ps :: "(string \<times> string) list" and c :: char and cs x2 old new
  assume "lookup_pair ps (c # cs) = Some x2" and "(old, new) = x2"
  then have "old \<noteq> []" using nonempty by metis
  then show "((ps, drop (length old) (c # cs)), ps, c # cs) \<in> measure (\<lambda>(ps, s). length s)"
    by (cases old) auto
qed auto

definition segments :: "string \<Rightarrow> string \<Rightarrow> segment list" where
  "segments ip doc = scan [(loopback_name, ip), (loopback_addr, ip)] doc"

definition occurrences :: "string \<Rightarrow> string \<Rightarrow> nat" where
  "occurrences pat s = length (filter (\<lambda>i. prefix pat (drop i s)) [0..<length s])"

subsection \<open>Concrete machines\<close>

text \<open>
  A machine with an agent holding two keys, an encrypted key \<open>id_rsa\<close> whose public
  half is the agent's second key, an unencrypted key, a file that is no key, and an
  existing kubeconfig that is world-readable.
\<close>

definition demo_agent :: agentConn where
  "demo_agent = \<lparr>agent_List = Inr [\<lparr>Format = ''ssh-rsa'', Blob = ''other'', Comment = ''a''\<rparr>,
                                   \<lparr>Format = ''ssh-rsa'', Blob = ''pub'', Comment = ''b''\<rparr>]\<rparr>"

definition demo_env :: env where
  "demo_env =
     \<lparr>Getenv = (\<lambda>v. if v = ''SSH_AUTH_SOCK'' then ''/tmp/agent.sock'' else []),
      Environ = [''HOME=/home/u''],
      TempDir = ''/tmp'',
      temp_rand = ''0123'',
      temp_fault = None,
      read_fault = (\<lambda>p. None),
      write_fault = (\<lambda>p. None),
      remove_fault = (\<lambda>p. None),
      umask = 0x12,
      filepath_Abs = (\<lambda>p. p),
      homedir_Expand = (\<lambda>p. p),
      strings_TrimSpace = (\<lambda>s. s),
      strconv_Quote = (\<lambda>s. [CHR 0x22] @ s @ [CHR 0x22]),
      ParsePrivateKey = (\<lambda>k. if k = ''PLAIN'' then Inr (KeySigner ''pub'')
                            else if k = ''ENCRYPTED'' then Inl (Err encrypted_key_message)
                            else Inl (Err ''ssh: no key found'')),
      ParsePrivateKeyWithPassphrase =
        (\<lambda>k pw. if k = ''ENCRYPTED'' \<and> pw = ''secret'' then Inr (KeySigner ''pub'')
                 else Inl (Err ''x509: decryption password incorrect'')),
      ParseAuthorizedKey = (\<lambda>b. if b = ''ssh-rsa pub'' then Inr (PublicKey ''pub'')
                               else Inl (Err ''ssh: no key found'')),
      net_Dial = (\<lambda>s. if s = ''/tmp/agent.sock'' then Inr demo_agent
                      else Inl (Err ''dial unix: connect: no such file or directory'')),
      ReadPassword = (''secret'', None),
      ssh_connect = (\<lambda>a c. None),
      ssh_run = (\<lambda>c. if c = getConfigcommand
                      then Inr \<lparr>StdOut = ''server: https://127.0.0.1:6443'', StdErr = []\<rparr>
                      else Inr \<lparr>StdOut = ''ok'', StdErr = []\<rparr>),
      kubectl = (\<lambda>f e. if last e = ''KUBECONFIG=/home/u/kubeconfig:/tmp/k3s-temp-0123''
                       then (case (f ''/home/u/kubeconfig'', f ''/tmp/k3s-temp-0123'') of
                               (Some a, Some b) \<Rightarrow> Inr (content a @ ''+'' @ content b)
                             | _ \<Rightarrow> Inl (Err ''exit status 1''))
                       else Inl (Err ''exit status 1''))\<rparr>"

definition demo_world :: world where
  "demo_world =
     \<lparr>fs = [''/home/u/.ssh/id_rsa'' \<mapsto> \<lparr>mode = 0x180, content = ''ENCRYPTED''\<rparr>,
            ''/home/u/.ssh/id_rsa.pub'' \<mapsto> \<lparr>mode = 0x1A4, content = ''ssh-rsa pub''\<rparr>,
            ''/home/u/plain'' \<mapsto> \<lparr>mode = 0x180, content = ''PLAIN''\<rparr>,
            ''/home/u/garbage'' \<mapsto> \<lparr>mode = 0x180, content = ''GARBAGE''\<rparr>,
            ''/home/u/kubeconfig'' \<mapsto> \<lparr>mode = 0x1A4, content = ''old''\<rparr>],
      trace = []\<rparr>"

definition demo_flags :: flags where
  "demo_flags = \<lparr>flag_local_path = ''/home/u/kubeconfig'', flag_skip_install = True,
     flag_ssh_port = 22, flag_ip = ''203.0.113.5'', flag_user = ''root'',
     flag_ssh_key = ''/home/u/.ssh/id_rsa'', flag_merge = True, flag_k3s_extra_args = '' --x '',
     flag_k3s_version = ''v0.8.1''\<rparr>"

text \<open>The same machine with no agent and no terminal on standard input.\<close>

definition no_tty_env :: env where
  "no_tty_env = demo_env\<lparr>net_Dial := (\<lambda>s. Inl (Err ''dial unix: connection refused'')),
                         ReadPassword := ([], Some (Err ''inappropriate ioctl for device''))\<rparr>"

text \<open>The same machine where kubectl exits with status 1, and where files cannot be removed.\<close>

definition kubectl_fails_env :: env where
  "kubectl_fails_env = demo_env\<lparr>kubectl := (\<lambda>f e. Inl (Err ''exit status 1''))\<rparr>"

definition remove_fails_env :: env where
  "remove_fails_env =
     demo_env\<lparr>remove_fault := (\<lambda>p. Some (Err (''remove '' @ p @ '': operation not permitted'')))\<rparr>"

section \<open>Lemmas\<close>

subsection \<open>What each step leaves alone\<close>

lemma fs_emit: "fs (emit e w) = fs w"
  by (simp add: emit_def)

lemma trace_emit: "trace (emit e w) = trace w @ [e]"
  by (simp add: emit_def)

lemma ReadFile_same_fs: "fs v = fs w \<Longrightarrow> ReadFile E v p = ReadFile E w p"
  by (simp add: ReadFile_def split: option.split)

lemma ReadFile_emit: "ReadFile E (emit e w) p = ReadFile E w p"
  by (rule ReadFile_same_fs) (simp add: fs_emit)

lemma blob_match_iff: "blob_match keys b \<longleftrightarrow> (\<exists>k \<in> set keys. Blob k = b)"
  by (induction keys) auto

lemma sshAgent_trace:
  "\<exists>es. trace (snd (sshAgent E pub w)) = trace w @ AgentDial (Getenv E ''SSH_AUTH_SOCK'') # es"
  by (auto simp: sshAgent_def Let_def trace_emit split: sum.splits)















lemma created_mode_owner_only: "owner_only (0x180 AND NOT u)"
proof -
  have "(0x180 :: 32 word) AND 0x3F = 0" by simp
  then have "(0x180 AND 0x3F) AND NOT u = (0 :: 32 word)" by simp
  then show ?thesis by (simp add: owner_only_def ac_simps)
qed

subsection \<open>The scan of the replacer\<close>

lemma lookup_pair_Some:
  "lookup_pair ps s = Some (old, new) \<Longrightarrow> old \<noteq> [] \<and> prefix old s \<and> (old, new) \<in> set ps"
  by (induction ps) (auto split: if_splits)

lemma lookup_pair_None:
  "lookup_pair ps s = None \<Longrightarrow> (old, new) \<in> set ps \<Longrightarrow> old \<noteq> [] \<Longrightarrow> \<not> prefix old s"
  by (induction ps) (auto split: if_splits)

lemma prefix_take_drop: "prefix p s \<Longrightarrow> p @ drop (length p) s = s"
  by (auto simp: prefix_def)

lemma scan_src: "concat (map seg_src (scan ps doc)) = doc"
proof (induction ps doc rule: scan.induct)
  case (1 ps)
  show ?case by simp
next
  case (2 ps c cs)
  show ?case
  proof (cases "lookup_pair ps (c # cs)")
    case None
    with 2 show ?thesis by simp
  next
    case (Some pr)
    obtain old new where pr: "pr = (old, new)" by (cases pr)
    have "old @ drop (length old) (c # cs) = c # cs"
      using lookup_pair_Some [of ps "c # cs" old new] Some pr prefix_take_drop by blast
    with 2(2) [OF Some pr [symmetric]] Some pr show ?thesis by simp
  qed
qed

lemma scan_dst: "concat (map seg_dst (scan ps doc)) = Replacer_Replace ps doc"
  by (induction ps doc rule: scan.induct) (auto split: option.splits)

lemma scan_subst: "Subst old new \<in> set (scan ps doc) \<Longrightarrow> (old, new) \<in> set ps \<and> old \<noteq> []"
proof (induction ps doc rule: scan.induct)
  case (1 ps)
  then show ?case by simp
next
  case (2 ps c cs)
  show ?case
  proof (cases "lookup_pair ps (c # cs)")
    case None
    with 2 show ?thesis by simp
  next
    case (Some pr)
    obtain o' n' where pr: "pr = (o', n')" by (cases pr)
    from 2(3) Some pr
    have "Subst old new = Subst o' n' \<or> Subst old new \<in> set (scan ps (drop (length o') (c # cs)))"
      by simp
    then show ?thesis
    proof
      assume "Subst old new = Subst o' n'"
      then show ?thesis
        using lookup_pair_Some [of ps "c # cs" o' n'] Some pr by simp
    next
      assume "Subst old new \<in> set (scan ps (drop (length o') (c # cs)))"
      then show ?thesis
        using 2(2) [OF Some pr [symmetric]] by simp
    qed
  qed
qed

lemma scan_keep:
  "scan ps doc = pre @ Keep c # post \<Longrightarrow> lookup_pair ps (c # concat (map seg_src post)) = None"
proof (induction ps doc arbitrary: pre rule: scan.induct)
  case (1 ps)
  then show ?case by simp
next
  case (2 ps d ds)
  show ?case
  proof (cases "lookup_pair ps (d # ds)")
    case None
    then have sc: "scan ps (d # ds) = Keep d # scan ps ds" by simp
    show ?thesis
    proof (cases pre)
      case Nil
      with sc 2(3) have "c = d" and "post = scan ps ds" by simp_all
      then show ?thesis using None scan_src [of ps ds] by simp
    next
      case (Cons x pre')
      with sc 2(3) have "scan ps ds = pre' @ Keep c # post" by simp
      then show ?thesis using 2(1) [OF None] by simp
    qed
  next
    case (Some pr)
    obtain old new where pr: "pr = (old, new)" by (cases pr)
    then have sc: "scan ps (d # ds) = Subst old new # scan ps (drop (length old) (d # ds))"
      using Some by simp
    show ?thesis
    proof (cases pre)
      case Nil
      with sc 2(3) show ?thesis by simp
    next
      case (Cons x pre')
      with sc 2(3) have "scan ps (drop (length old) (d # ds)) = pre' @ Keep c # post" by simp
      then show ?thesis using 2(2) [OF Some pr [symmetric]] by simp
    qed
  qed
qed

lemma scan_length:
  "length (Replacer_Replace ps doc) + sum_list (map (length \<circ> seg_src) (filter is_subst (scan ps doc)))
     = length doc + sum_list (map (length \<circ> seg_dst) (filter is_subst (scan ps doc)))"
proof (induction ps doc rule: scan.induct)
  case (1 ps)
  show ?case by simp
next
  case (2 ps c cs)
  show ?case
  proof (cases "lookup_pair ps (c # cs)")
    case None
    with 2 show ?thesis by simp
  next
    case (Some pr)
    obtain old new where pr: "pr = (old, new)" by (cases pr)
    have "prefix old (c # cs)"
      using lookup_pair_Some [of ps "c # cs" old new] Some pr by simp
    then have "length old \<le> length (c # cs)"
      by (rule prefix_length_le)
    then have "length (drop (length old) (c # cs)) + length old = length (c # cs)"
      by simp
    with 2(2) [OF Some pr [symmetric]] Some pr show ?thesis by simp
  qed
qed

section \<open>The properties\<close>

subsection \<open>Resolving the authentication method\<close>

text \<open>
  C1. A key file that reads but does not parse as an unencrypted private key. When the
  parse error is not the encrypted-key error, that error comes back at once and the
  world is untouched (no dial, no prompt). When it is, \<open>loadPublickey\<close> goes on to
  \<open>sshAgent\<close>: everything \<open>sshAgent\<close> does is the start of what \<open>loadPublickey\<close> does. So
  the agent socket is dialled if and only if the error is the encrypted-key error.
\<close>

theorem loadPublickey_parse_error:
  assumes "ReadFile E w p = Inr key" and "ParsePrivateKey E key = Inl err"
  shows "(message err \<noteq> encrypted_key_message \<longrightarrow>
            loadPublickey E p w = ((None, noopCloseFunc, Some err), w))
       \<and> (message err = encrypted_key_message \<longrightarrow>
            prefix (trace (snd (sshAgent E (p @ ''.pub'') w))) (trace (snd (loadPublickey E p w))))
       \<and> (AgentDial (Getenv E ''SSH_AUTH_SOCK'')
             \<in> set (drop (length (trace w)) (trace (snd (loadPublickey E p w))))
            \<longleftrightarrow> message err = encrypted_key_message)"
proof (cases "message err = encrypted_key_message")
  case False
  with assms show ?thesis by (simp add: loadPublickey_def)
next
  case True
  obtain a cl w1 where ag: "sshAgent E (p @ ''.pub'') w = ((a, cl), w1)"
    by (metis surj_pair)
  obtain es where es: "trace w1 = trace w @ AgentDial (Getenv E ''SSH_AUTH_SOCK'') # es"
    using sshAgent_trace [of E "p @ ''.pub''" w] ag by auto
  have "\<exists>fs. trace (snd (loadPublickey E p w)) = trace w1 @ fs"
    using assms True ag
    by (cases a; cases cl) (simp_all add: loadPublickey_def Let_def trace_emit split: sum.splits)
  then obtain fs where fs: "trace (snd (loadPublickey E p w)) = trace w1 @ fs" ..
  show ?thesis using True ag es fs by simp
qed

theorem loadPublickey_parse_error_witness:
  "ReadFile demo_env demo_world ''/home/u/.ssh/id_rsa'' = Inr ''ENCRYPTED''
   \<and> ParsePrivateKey demo_env ''ENCRYPTED'' = Inl (Err encrypted_key_message)
   \<and> AgentDial ''/tmp/agent.sock''
        \<in> set (trace (snd (loadPublickey demo_env ''/home/u/.ssh/id_rsa'' demo_world)))
   \<and> ReadFile demo_env demo_world ''/home/u/garbage'' = Inr ''GARBAGE''
   \<and> ParsePrivateKey demo_env ''GARBAGE'' = Inl (Err ''ssh: no key found'')
   \<and> loadPublickey demo_env ''/home/u/garbage'' demo_world
        = ((None, noopCloseFunc, Some (Err ''ssh: no key found'')), demo_world)"
proof -
  have r1: "ReadFile demo_env demo_world ''/home/u/.ssh/id_rsa'' = Inr ''ENCRYPTED''"
    by (simp add: ReadFile_def demo_env_def demo_world_def)
  have p1: "ParsePrivateKey demo_env ''ENCRYPTED'' = Inl (Err encrypted_key_message)"
    by (simp add: demo_env_def)
  have r2: "ReadFile demo_env demo_world ''/home/u/garbage'' = Inr ''GARBAGE''"
    by (simp add: ReadFile_def demo_env_def demo_world_def)
  have p2: "ParsePrivateKey demo_env ''GARBAGE'' = Inl (Err ''ssh: no key found'')"
    by (simp add: demo_env_def)
  have s: "Getenv demo_env ''SSH_AUTH_SOCK'' = ''/tmp/agent.sock''"
    by (simp add: demo_env_def)
  have t: "trace demo_world = []"
    by (simp add: demo_world_def)
  have n: "message (Err ''ssh: no key found'') \<noteq> encrypted_key_message"
    by (simp add: encrypted_key_message_def)
  show ?thesis
    using loadPublickey_parse_error [OF r1 p1] loadPublickey_parse_error [OF r2 p2] r1 p1 r2 p2 s t n
    by simp
qed

text \<open>
  C2. A key path whose read fails: \<open>loadPublickey\<close> returns the read error with the world
  untouched (no agent, no prompt), and \<open>RunE\<close>, called with that key path, returns the
  wrapped error having printed its two opening lines and nothing else: no dial of the
  agent or of the remote host, no password read, no change to the file system.
\<close>

theorem read_failure_is_fatal:
  assumes "ReadFile E w p = Inl err"
  shows "loadPublickey E p w = ((None, noopCloseFunc, Some err), w)
       \<and> (expandPath E (flag_ssh_key F) = p \<longrightarrow>
            fst (runE E F w)
              = Some (Wrapf err (''unable to load the ssh key with path '' @ strconv_Quote E p))
          \<and> fs (snd (runE E F w)) = fs w
          \<and> trace (snd (runE E F w))
              = trace w @ [Stdout (''Public IP: '' @ flag_ip F @ nl),
                           Stdout (''ssh -i '' @ p @ '' '' @ flag_user F @ ''@'' @ flag_ip F @ nl)]
          \<and> \<not> list_ex is_dial (drop (length (trace w)) (trace (snd (runE E F w))))
          \<and> \<not> list_ex is_prompt (drop (length (trace w)) (trace (snd (runE E F w)))))"
proof -
  have lp: "loadPublickey E p v = ((None, noopCloseFunc, Some err), v)" if "fs v = fs w" for v
  proof -
    have "ReadFile E v p = Inl err"
      using assms ReadFile_same_fs [OF that, of E p] by simp
    then show ?thesis by (simp add: loadPublickey_def)
  qed
  show ?thesis
    by (simp add: lp runE_def Let_def fs_emit trace_emit)
qed

theorem read_failure_is_fatal_witness:
  "ReadFile demo_env demo_world ''/home/u/missing''
     = Inl (Err ''open /home/u/missing: no such file or directory'')
   \<and> loadPublickey demo_env ''/home/u/missing'' demo_world
     = ((None, noopCloseFunc, Some (Err ''open /home/u/missing: no such file or directory'')),
        demo_world)
   \<and> fst (runE demo_env (demo_flags\<lparr>flag_ssh_key := ''/home/u/missing''\<rparr>) demo_world)
     = Some (Err (''unable to load the ssh key with path '' @ [CHR 0x22] @ ''/home/u/missing''
                  @ [CHR 0x22] @ '': open /home/u/missing: no such file or directory''))
   \<and> \<not> list_ex is_dial
          (trace (snd (runE demo_env (demo_flags\<lparr>flag_ssh_key := ''/home/u/missing''\<rparr>) demo_world)))"
proof -
  have r: "ReadFile demo_env demo_world ''/home/u/missing''
             = Inl (Err ''open /home/u/missing: no such file or directory'')"
    by (simp add: ReadFile_def demo_env_def demo_world_def)
  have e: "expandPath demo_env (flag_ssh_key (demo_flags\<lparr>flag_ssh_key := ''/home/u/missing''\<rparr>))
             = ''/home/u/missing''"
    by (simp add: expandPath_def demo_env_def)
  have q: "strconv_Quote demo_env ''/home/u/missing'' = [CHR 0x22] @ ''/home/u/missing'' @ [CHR 0x22]"
    by (simp add: demo_env_def)
  have t: "trace demo_world = []"
    by (simp add: demo_world_def)
  show ?thesis
    using read_failure_is_fatal [OF r, of "demo_flags\<lparr>flag_ssh_key := ''/home/u/missing''\<rparr>"] r e q t
    by (simp add: Wrapf_def)
qed

text \<open>
  C7. A key file that reads and parses as an unencrypted private key: \<open>loadPublickey\<close>
  returns the method \<open>ssh.PublicKeys(signer)\<close> (not nil), the no-op release function and a
  nil error, and leaves the world as it was: nothing is printed, the password is not
  read, the agent socket is not dialled.
\<close>

theorem loadPublickey_unencrypted:
  assumes "ReadFile E w p = Inr key" and "ParsePrivateKey E key = Inr sg"
  shows "loadPublickey E p w = ((Some (PublicKeys [sg]), noopCloseFunc, None), w)"
  using assms by (simp add: loadPublickey_def)

theorem loadPublickey_unencrypted_witness:
  "loadPublickey demo_env ''/home/u/plain'' demo_world
     = ((Some (PublicKeys [KeySigner ''pub'']), noopCloseFunc, None), demo_world)
   \<and> \<not> list_ex is_dial (trace (snd (loadPublickey demo_env ''/home/u/plain'' demo_world)))
   \<and> \<not> list_ex is_prompt (trace (snd (loadPublickey demo_env ''/home/u/plain'' demo_world)))"
proof -
  have r: "ReadFile demo_env demo_world ''/home/u/plain'' = Inr ''PLAIN''"
    by (simp add: ReadFile_def demo_env_def demo_world_def)
  have p: "ParsePrivateKey demo_env ''PLAIN'' = Inr (KeySigner ''pub'')"
    by (simp add: demo_env_def)
  show ?thesis
    using loadPublickey_unencrypted [OF r p] by (simp add: demo_world_def)
qed

text \<open>
  C9. On the passphrase path (encrypted key, no method from the agent), whatever error
  \<open>terminal.ReadPassword\<close> returns (\<open>rerr\<close>, any value) is dropped: the outcome is decided
  by \<open>ParsePrivateKeyWithPassphrase\<close> on the bytes that were read alone, and the only
  error that can come back is the decryption error.
\<close>

theorem passphrase_read_error_discarded:
  assumes "ReadFile E w p = Inr key"
    and "ParsePrivateKey E key = Inl err"
    and "message err = encrypted_key_message"
    and "fst (fst (sshAgent E (p @ ''.pub'') w)) = None"
    and "ReadPassword E = (pw, rerr)"
  shows "fst (loadPublickey E p w)
           = (case ParsePrivateKeyWithPassphrase E key pw of
                Inl e \<Rightarrow> (None, noopCloseFunc, Some e)
              | Inr sg \<Rightarrow> (Some (PublicKeys [sg]), noopCloseFunc, None))"
proof -
  obtain cl w1 where ag: "sshAgent E (p @ ''.pub'') w = ((None, cl), w1)"
    using assms(4) by (metis fst_conv surj_pair)
  show ?thesis
    using assms ag by (simp add: loadPublickey_def Let_def split: sum.splits)
qed

theorem passphrase_read_error_discarded_witness:
  "ReadPassword no_tty_env = ([], Some (Err ''inappropriate ioctl for device''))
   \<and> fst (loadPublickey no_tty_env ''/home/u/.ssh/id_rsa'' demo_world)
       = (None, noopCloseFunc, Some (Err ''x509: decryption password incorrect''))"
proof -
  have r: "ReadFile no_tty_env demo_world ''/home/u/.ssh/id_rsa'' = Inr ''ENCRYPTED''"
    by (simp add: ReadFile_def no_tty_env_def demo_env_def demo_world_def)
  have p: "ParsePrivateKey no_tty_env ''ENCRYPTED'' = Inl (Err encrypted_key_message)"
    by (simp add: no_tty_env_def demo_env_def)
  have m: "message (Err encrypted_key_message) = encrypted_key_message"
    by simp
  have a: "fst (fst (sshAgent no_tty_env (''/home/u/.ssh/id_rsa'' @ ''.pub'') demo_world)) = None"
    by (simp add: sshAgent_def no_tty_env_def demo_env_def Let_def)
  have rp: "ReadPassword no_tty_env = ([], Some (Err ''inappropriate ioctl for device''))"
    by (simp add: no_tty_env_def)
  have d: "ParsePrivateKeyWithPassphrase no_tty_env ''ENCRYPTED'' []
             = Inl (Err ''x509: decryption password incorrect'')"
    by (simp add: no_tty_env_def demo_env_def)
  show ?thesis
    using passphrase_read_error_discarded [OF r p m a rp] rp d by simp
qed

text \<open>
  C10. When the agent is reachable, lists at least one key, the public key file reads
  and parses, and some listed key's blob equals the marshalled public key, \<open>sshAgent\<close>
  returns \<open>ssh.PublicKeysCallback(sshAgent.Signers)\<close>, and that method offers a signer
  for every key the agent lists, not only for the key that matched.
\<close>

theorem sshAgent_offers_all_signers:
  assumes "net_Dial E (Getenv E ''SSH_AUTH_SOCK'') = Inr c"
    and "agent_List c = Inr keys"
    and "keys \<noteq> []"
    and "ReadFile E w pub = Inr pubkey"
    and "ParseAuthorizedKey E pubkey = Inr authkey"
    and "\<exists>k \<in> set keys. Blob k = Marshal authkey"
  shows "fst (sshAgent E pub w) = (Some (PublicKeysCallback c), sshAgentConn_Close)
       \<and> offered_signers (PublicKeysCallback c) = Inr (map (\<lambda>k. AgentKeySigner (Blob k)) keys)"
  using assms
  by (simp add: sshAgent_def Let_def ReadFile_emit blob_match_iff agent_Signers_def)

theorem sshAgent_offers_all_signers_witness:
  "fst (sshAgent demo_env ''/home/u/.ssh/id_rsa.pub'' demo_world)
     = (Some (PublicKeysCallback demo_agent), sshAgentConn_Close)
   \<and> offered_signers (PublicKeysCallback demo_agent)
     = Inr [AgentKeySigner ''other'', AgentKeySigner ''pub'']"
proof -
  let ?keys = "[\<lparr>Format = ''ssh-rsa'', Blob = ''other'', Comment = ''a''\<rparr>,
                \<lparr>Format = ''ssh-rsa'', Blob = ''pub'', Comment = ''b''\<rparr>]"
  have d: "net_Dial demo_env (Getenv demo_env ''SSH_AUTH_SOCK'') = Inr demo_agent"
    by (simp add: demo_env_def)
  have l: "agent_List demo_agent = Inr ?keys"
    by (simp add: demo_agent_def)
  have k: "?keys \<noteq> []"
    by simp
  have r: "ReadFile demo_env demo_world ''/home/u/.ssh/id_rsa.pub'' = Inr ''ssh-rsa pub''"
    by (simp add: ReadFile_def demo_env_def demo_world_def)
  have p: "ParseAuthorizedKey demo_env ''ssh-rsa pub'' = Inr (PublicKey ''pub'')"
    by (simp add: demo_env_def)
  have m: "\<exists>k \<in> set ?keys. Blob k = Marshal (PublicKey ''pub'')"
    by simp
  show ?thesis
    using sshAgent_offers_all_signers [OF d l k r p m] by simp
qed

subsection \<open>The loopback rewrite\<close>

text \<open>
  C3, as stated, fails on overlapping occurrences. In \<open>127.0.0.127.0.0.1\<close> the literal
  \<open>127.0.0.1\<close> occurs twice, at offsets 0 and 8, sharing one byte; the scan replaces the
  first and resumes after it, so the second is copied: one substitution for two
  occurrences, and the bytes \<open>27.0.0.1\<close> of the second occurrence survive.
\<close>

theorem rewriteLoopback_overlap_counterexample:
  "occurrences loopback_addr ''127.0.0.127.0.0.1'' = 2
   \<and> prefix loopback_addr (drop 8 ''127.0.0.127.0.0.1'')
   \<and> rewriteLoopback ''203.0.113.5'' ''127.0.0.127.0.0.1'' = ''203.0.113.5'' @ ''27.0.0.1''
   \<and> length (filter is_subst (segments ''203.0.113.5'' ''127.0.0.127.0.0.1'')) = 1"
  by code_simp

text \<open>
  C3, amended. For every document and address, the rewrite is a left-to-right cut of the
  document (the segments, joined, are the document) into copied bytes and replaced
  literals; the output is the same cut with each replaced literal exchanged for the
  address, so every other byte is kept, in order. Only \<open>localhost\<close> and \<open>127.0.0.1\<close>
  are replaced, and no copied byte is the first byte of an occurrence of either: every
  occurrence is replaced unless it overlaps an occurrence replaced to its left. Both
  literals are 9 bytes long, so with \<open>n\<close> substitutions the output is longer than the
  input by \<open>n\<close> times the length of the address less \<open>9 n\<close>.
\<close>

theorem rewriteLoopback_scan:
  "concat (map seg_src (segments ip doc)) = doc
   \<and> concat (map seg_dst (segments ip doc)) = rewriteLoopback ip doc
   \<and> (\<forall>seg \<in> set (segments ip doc).
         is_subst seg \<longrightarrow> seg = Subst loopback_name ip \<or> seg = Subst loopback_addr ip)
   \<and> (\<forall>pre c post. segments ip doc = pre @ Keep c # post \<longrightarrow>
         \<not> prefix loopback_name (c # concat (map seg_src post))
       \<and> \<not> prefix loopback_addr (c # concat (map seg_src post)))
   \<and> length (rewriteLoopback ip doc) + 9 * length (filter is_subst (segments ip doc))
       = length doc + length ip * length (filter is_subst (segments ip doc))"
proof -
  let ?ps = "[(loopback_name, ip), (loopback_addr, ip)]"
  have n1: "loopback_name \<noteq> []" and n2: "loopback_addr \<noteq> []"
    by (simp_all add: loopback_name_def loopback_addr_def)
  have l1: "length loopback_name = 9" and l2: "length loopback_addr = 9"
    by (simp_all add: loopback_name_def loopback_addr_def)
  have sub: "seg = Subst loopback_name ip \<or> seg = Subst loopback_addr ip"
    if "seg \<in> set (scan ?ps doc)" and "is_subst seg" for seg
  proof (cases seg)
    case (Keep c)
    with that show ?thesis by simp
  next
    case (Subst old new)
    with that scan_subst [of old new ?ps doc] show ?thesis by auto
  qed
  have keep: "\<not> prefix loopback_name (c # concat (map seg_src post))
            \<and> \<not> prefix loopback_addr (c # concat (map seg_src post))"
    if "scan ?ps doc = pre @ Keep c # post" for pre c post
  proof -
    have none: "lookup_pair ?ps (c # concat (map seg_src post)) = None"
      using that by (rule scan_keep)
    show ?thesis
      using lookup_pair_None [OF none, of loopback_name ip]
        lookup_pair_None [OF none, of loopback_addr ip] n1 n2
      by simp
  qed
  have src: "map (length \<circ> seg_src) (filter is_subst (scan ?ps doc))
               = map (\<lambda>seg. 9) (filter is_subst (scan ?ps doc))"
  proof (intro map_cong refl)
    fix seg assume "seg \<in> set (filter is_subst (scan ?ps doc))"
    then have "seg = Subst loopback_name ip \<or> seg = Subst loopback_addr ip"
      using sub by simp
    then show "(length \<circ> seg_src) seg = 9"
      using l1 l2 by auto
  qed
  have dst: "map (length \<circ> seg_dst) (filter is_subst (scan ?ps doc))
               = map (\<lambda>seg. length ip) (filter is_subst (scan ?ps doc))"
  proof (intro map_cong refl)
    fix seg assume "seg \<in> set (filter is_subst (scan ?ps doc))"
    then have "seg = Subst loopback_name ip \<or> seg = Subst loopback_addr ip"
      using sub by simp
    then show "(length \<circ> seg_dst) seg = length ip"
      by auto
  qed
  have len: "length (Replacer_Replace ?ps doc) + 9 * length (filter is_subst (scan ?ps doc))
               = length doc + length ip * length (filter is_subst (scan ?ps doc))"
    using scan_length [of ?ps doc] unfolding src dst
    by (simp add: sum_list_triv mult.commute)
  show ?thesis
    unfolding segments_def rewriteLoopback_def
    using scan_src [of ?ps doc] scan_dst [of ?ps doc] sub keep len by blast
qed

theorem rewriteLoopback_scan_witness:
  "segments ''203.0.113.5'' ''a localhost''
     = [] @ Keep CHR ''a'' # [Keep CHR '' '', Subst loopback_name ''203.0.113.5'']
   \<and> \<not> prefix loopback_name ''a localhost''
   \<and> rewriteLoopback ''203.0.113.5'' ''a localhost'' = ''a 203.0.113.5''
   \<and> length (rewriteLoopback ''203.0.113.5'' ''a localhost'') + 9 * 1
       = length ''a localhost'' + length ''203.0.113.5'' * 1"
proof -
  have s: "segments ''203.0.113.5'' ''a localhost''
             = [] @ Keep CHR ''a'' # [Keep CHR '' '', Subst loopback_name ''203.0.113.5'']"
    by code_simp
  have c: "CHR ''a'' # concat (map seg_src [Keep CHR '' '', Subst loopback_name ''203.0.113.5''])
             = ''a localhost''"
    by (simp add: loopback_name_def)
  have d: "concat (map seg_dst ([] @ Keep CHR ''a'' # [Keep CHR '' '', Subst loopback_name ''203.0.113.5'']))
             = ''a 203.0.113.5''"
    by simp
  have n: "length (filter is_subst ([] @ Keep CHR ''a'' # [Keep CHR '' '', Subst loopback_name ''203.0.113.5''])) = 1"
    by simp
  from rewriteLoopback_scan [of "''203.0.113.5''" "''a localhost''"]
  have k: "\<not> prefix loopback_name
              (CHR ''a'' # concat (map seg_src [Keep CHR '' '', Subst loopback_name ''203.0.113.5'']))"
    and r: "concat (map seg_dst (segments ''203.0.113.5'' ''a localhost''))
              = rewriteLoopback ''203.0.113.5'' ''a localhost''"
    and l: "length (rewriteLoopback ''203.0.113.5'' ''a localhost'')
              + 9 * length (filter is_subst (segments ''203.0.113.5'' ''a localhost''))
            = length ''a localhost''
              + length ''203.0.113.5'' * length (filter is_subst (segments ''203.0.113.5'' ''a localhost''))"
    using s by blast+
  show ?thesis
    using s k r l unfolding c s d n by simp
qed

subsection \<open>Merging and saving\<close>

text \<open>
  C4. The claim is what the code sets out to do (line 188, \<open>Remove the temporarily
  generated file\<close>) but the removal comes after the early return of line 185: when
  kubectl fails, \<open>mergeConfigs\<close> returns the error and the temporary file, holding the
  new kubeconfig, is still in the file system.
\<close>

theorem mergeConfigs_tool_failure_leaves_temp:
  "fst (mergeConfigs kubectl_fails_env ''/home/u/kubeconfig'' ''new'' demo_world)
     = Inl (Err ''Could not merge kubeconfigs: exit status 1'')
   \<and> fs (snd (mergeConfigs kubectl_fails_env ''/home/u/kubeconfig'' ''new'' demo_world))
        ''/tmp/k3s-temp-0123''
     = Some \<lparr>mode = 0x180, content = ''new''\<rparr>"
  by (simp add: mergeConfigs_def TempFile_def writeConfig_def WriteFile_def opened_def
      kubectl_fails_env_def demo_env_def demo_world_def Let_def fs_emit emit_def)

text \<open>
  C5, as stated, fails: with kubectl successful (it printed \<open>old+new\<close>) and the removal
  of the temporary file refused, \<open>mergeConfigs\<close> returns an error and no bytes.
\<close>

theorem mergeConfigs_ignores_removal_counterexample:
  "kubectl remove_fails_env
     ((fs demo_world)(''/tmp/k3s-temp-0123'' \<mapsto> \<lparr>mode = 0x180, content = ''new''\<rparr>))
     (Environ remove_fails_env @ [''KUBECONFIG=/home/u/kubeconfig:/tmp/k3s-temp-0123''])
     = Inr ''old+new''
   \<and> fst (mergeConfigs remove_fails_env ''/home/u/kubeconfig'' ''new'' demo_world)
     = Inl (Err ''Could not remove temporary kubeconfig file: /tmp/k3s-temp-0123: remove /tmp/k3s-temp-0123: operation not permitted'')"
  by (simp add: mergeConfigs_def TempFile_def writeConfig_def WriteFile_def opened_def Remove_def
      Wrapf_def remove_fails_env_def demo_env_def demo_world_def Let_def fs_emit emit_def)

text \<open>
  C5, amended. When the temporary file was created and written and kubectl succeeded, a
  failure to remove the temporary file is not ignored: \<open>mergeConfigs\<close> returns the
  removal error wrapped as \<open>Could not remove temporary kubeconfig file: <name>: <error>\<close>,
  and the merged bytes are dropped.
\<close>

theorem mergeConfigs_remove_failure:
  assumes "TempFile E (TempDir E) ''k3s-temp-'' w = (Inr name, w1)"
    and "writeConfig E name k3sconfig True w1 = (None, w2)"
    and "kubectl E (fs w2) (Environ E @ [''KUBECONFIG='' @ localPath @ '':'' @ name]) = Inr data"
    and "remove_fault E name = Some err"
  shows "fst (mergeConfigs E localPath k3sconfig w)
           = Inl (Wrapf err (''Could not remove temporary kubeconfig file: '' @ name))"
  using assms
  by (simp add: mergeConfigs_def Let_def fs_emit Remove_def)

theorem mergeConfigs_remove_failure_witness:
  "fst (mergeConfigs remove_fails_env ''/home/u/kubeconfig'' ''new'' demo_world)
     = Inl (Err ''Could not remove temporary kubeconfig file: /tmp/k3s-temp-0123: remove /tmp/k3s-temp-0123: operation not permitted'')"
proof -
  let ?w1 = "demo_world\<lparr>fs := (fs demo_world)(''/tmp/k3s-temp-0123'' \<mapsto> \<lparr>mode = 0x180, content = []\<rparr>)\<rparr>"
  let ?w2 = "?w1\<lparr>fs := (fs ?w1)(''/tmp/k3s-temp-0123'' \<mapsto> \<lparr>mode = 0x180, content = ''new''\<rparr>)\<rparr>"
  have t: "TempFile remove_fails_env (TempDir remove_fails_env) ''k3s-temp-'' demo_world
             = (Inr ''/tmp/k3s-temp-0123'', ?w1)"
    by (simp add: TempFile_def Let_def remove_fails_env_def demo_env_def demo_world_def)
  have wr: "writeConfig remove_fails_env ''/tmp/k3s-temp-0123'' ''new'' True ?w1 = (None, ?w2)"
    by (simp add: writeConfig_def WriteFile_def opened_def remove_fails_env_def demo_env_def)
  have k: "kubectl remove_fails_env (fs ?w2)
             (Environ remove_fails_env @ [''KUBECONFIG='' @ ''/home/u/kubeconfig'' @ '':'' @ ''/tmp/k3s-temp-0123''])
             = Inr ''old+new''"
    by (simp add: remove_fails_env_def demo_env_def demo_world_def)
  have r: "remove_fault remove_fails_env ''/tmp/k3s-temp-0123''
             = Some (Err ''remove /tmp/k3s-temp-0123: operation not permitted'')"
    by (simp add: remove_fails_env_def)
  show ?thesis
    using mergeConfigs_remove_failure [OF t wr k r] by (simp add: Wrapf_def)
qed

text \<open>
  C6, as stated, fails on the permission when the destination was there before: the
  existing kubeconfig has mode 0644 (\<open>0x1A4\<close>), \<open>writeConfig\<close> succeeds, the content is
  replaced and the mode is still 0644, not 0600 (\<open>0x180\<close>).
\<close>

theorem writeConfig_existing_counterexample:
  "fs demo_world ''/home/u/kubeconfig'' = Some \<lparr>mode = 0x1A4, content = ''old''\<rparr>
   \<and> fst (writeConfig demo_env ''/home/u/kubeconfig'' ''new'' False demo_world) = None
   \<and> fs (snd (writeConfig demo_env ''/home/u/kubeconfig'' ''new'' False demo_world))
        ''/home/u/kubeconfig''
     = Some \<lparr>mode = 0x1A4, content = ''new''\<rparr>
   \<and> (0x1A4 :: 32 word) \<noteq> 0x180"
  by (simp add: writeConfig_def WriteFile_def opened_def demo_env_def demo_world_def Let_def
      fs_emit emit_def)

text \<open>
  C6, amended. After a \<open>writeConfig\<close> that returns without error, the destination (the
  absolute form of the path) holds exactly the bytes passed in, whether or not it
  existed before, and no other file has changed. Its permission is the one it had if it
  existed before; if the call created it, it is 0600 less the umask, which is
  owner-only.
\<close>

theorem writeConfig_ok:
  assumes "fst (writeConfig E p data suppressMessage w) = None"
  shows "fs (snd (writeConfig E p data suppressMessage w)) (filepath_Abs E p)
           = Some \<lparr>mode = (case fs w (filepath_Abs E p) of
                              None \<Rightarrow> 0x180 AND NOT (umask E)
                            | Some f \<Rightarrow> mode f),
                    content = data\<rparr>
       \<and> (fs w (filepath_Abs E p) = None \<longrightarrow>
            (case fs (snd (writeConfig E p data suppressMessage w)) (filepath_Abs E p) of
               None \<Rightarrow> False
             | Some f \<Rightarrow> owner_only (mode f)))
       \<and> (\<forall>q. q \<noteq> filepath_Abs E p \<longrightarrow>
             fs (snd (writeConfig E p data suppressMessage w)) q = fs w q)"
  using assms
  by (auto simp: writeConfig_def WriteFile_def opened_def Let_def fs_emit created_mode_owner_only
      split: option.splits writeFault.splits if_splits)

theorem writeConfig_ok_witness:
  "fst (writeConfig demo_env ''/home/u/fresh'' ''new'' False demo_world) = None
   \<and> fs (snd (writeConfig demo_env ''/home/u/fresh'' ''new'' False demo_world)) ''/home/u/fresh''
       = Some \<lparr>mode = 0x180, content = ''new''\<rparr>
   \<and> owner_only 0x180
   \<and> fs (snd (writeConfig demo_env ''/home/u/fresh'' ''new'' False demo_world)) ''/home/u/plain''
       = Some \<lparr>mode = 0x180, content = ''PLAIN''\<rparr>"
proof -
  have ok: "fst (writeConfig demo_env ''/home/u/fresh'' ''new'' False demo_world) = None"
    by (simp add: writeConfig_def WriteFile_def demo_env_def Let_def)
  have a: "filepath_Abs demo_env ''/home/u/fresh'' = ''/home/u/fresh''"
    by (simp add: demo_env_def)
  have f: "fs demo_world ''/home/u/fresh'' = None"
    by (simp add: demo_world_def)
  have g: "fs demo_world ''/home/u/plain'' = Some \<lparr>mode = 0x180, content = ''PLAIN''\<rparr>"
    by (simp add: demo_world_def)
  have u: "(0x180 :: 32 word) AND NOT (umask demo_env) = 0x180"
    by (simp add: demo_env_def)
  have n: "''/home/u/plain'' \<noteq> ''/home/u/fresh''"
    by simp
  show ?thesis
    using writeConfig_ok [OF ok] ok a f g u n by auto
qed

subsection \<open>The command\<close>



end
